theory Spec2Isabelle
  imports Main "HOL-Library.Word"
begin

section \<open>Data model\<close>

text \<open>
  The parser of \<^verbatim>\<open>read/parse.go\<close> works on Go strings, which are byte sequences: a
  buffer is a \<open>string\<close> (a list of 8-bit characters), \<open>length\<close> is Go's \<open>len\<close>, and every
  byte is read as the code point of the same number. Go's \<open>int\<close> is a 64-bit
  two's-complement integer: \<open>goint\<close>, read with \<open>sint\<close>.
\<close>

type_synonym goint = "64 word"

text \<open>
  The error values declared at the top of \<^verbatim>\<open>parse.go\<close>, then the errors made in
  place with \<^verbatim>\<open>errors.New\<close>, one constructor for each message (six in
  \<^verbatim>\<open>parseObjectAttributes\<close>, one for a missing \<^verbatim>\<open>Size\<close> in \<^verbatim>\<open>parseXRefStreamDict\<close>),
  and the errors of package strconv (\<open>ErrNum\<close> with the function's name and the rejected
  token).
\<close>

datatype error =
    ErrArrayCorrupt
  | ErrArrayNotTerminated
  | ErrDictionaryCorrupt
  | ErrDictionaryDuplicateKey
  | ErrDictionaryNotTerminated
  | ErrHexLiteralCorrupt
  | ErrHexLiteralNotTerminated
  | ErrNameObjectCorrupt
  | ErrNoArray
  | ErrNoDictionary
  | ErrStringLiteralCorrupt
  | ErrBufNotAvailable
  | ErrXrefStreamMissingW
  | ErrXrefStreamCorruptW
  | ErrXrefStreamCorruptIndex
  | ErrObjStreamMissingN
  | ErrObjStreamMissingFirst
  | ErrAttrBufNotAvailable
  | ErrAttrNoObj
  | ErrAttrNoObjectNumber
  | ErrAttrNoEndOfObjectNumber
  | ErrAttrNoGenerationNumber
  | ErrAttrNoEndOfGenerationNumber
  | ErrXrefStreamMissingSize
  | ErrNum string string

text \<open>
  The values behind Go's \<^verbatim>\<open>interface{}\<close>: the object types of package \<^verbatim>\<open>types\<close> that
  the parser builds, and \<open>PDFNull\<close> for the \<^verbatim>\<open>nil\<close> that stands for \<^verbatim>\<open>null\<close>. The
  payload of a float is of an abstract type \<open>'f\<close>: binary floating point is not modelled.
  A dictionary keeps its entries in insertion order.
\<close>

datatype 'f obj =
    PDFNull
  | PDFBoolean bool
  | PDFInteger goint
  | PDFFloat 'f
  | PDFName string
  | PDFStringLiteral string
  | PDFHexLiteral string
  | PDFArray "'f obj list"
  | PDFDict "(string \<times> 'f obj) list"
  | PDFIndirectRef goint goint

section \<open>Library functions\<close>

text \<open>
  \<^verbatim>\<open>unicode.IsSpace\<close> on a byte converted to a rune: in the Latin-1 range the white space
  characters are tab, line feed, vertical tab, form feed, carriage return, space,
  U+0085 and U+00A0.
\<close>

definition isSpace :: "char \<Rightarrow> bool" where
  "isSpace c \<longleftrightarrow>
     c \<in> set [CHR 0x09, CHR 0x0A, CHR 0x0B, CHR 0x0C, CHR 0x0D, CHR 0x20, CHR 0x85, CHR 0xA0]"

text \<open>\<^verbatim>\<open>strings.HasPrefix\<close>.\<close>

definition HasPrefix :: "string \<Rightarrow> string \<Rightarrow> bool" where
  "HasPrefix s p \<longleftrightarrow> take (length p) s = p"

text \<open>\<^verbatim>\<open>strings.Index\<close>: the index of the first occurrence of \<open>sep\<close> in \<open>s\<close>, or -1.\<close>

fun IndexFrom :: "string \<Rightarrow> string \<Rightarrow> nat \<Rightarrow> int" where
  "IndexFrom sep [] i = (if sep = [] then int i else -1)"
| "IndexFrom sep (c # cs) i =
     (if HasPrefix (c # cs) sep then int i else IndexFrom sep cs (Suc i))"

definition stringsIndex :: "string \<Rightarrow> string \<Rightarrow> int" where
  "stringsIndex s sep = IndexFrom sep s 0"

text \<open>
  \<^verbatim>\<open>strconv.Atoi\<close>: an optional sign, then one or more decimal digits and nothing else;
  a value outside the 64-bit range is an error as well.
\<close>

definition isDigit :: "char \<Rightarrow> bool" where
  "isDigit c \<longleftrightarrow> 48 \<le> (of_char c :: nat) \<and> (of_char c :: nat) \<le> 57"

definition decimal :: "string \<Rightarrow> int" where
  "decimal ds = foldl (\<lambda>n c. 10 * n + (of_char c - 48)) 0 ds"

definition Atoi :: "string \<Rightarrow> goint option" where
  "Atoi s =
     (let neg = (s \<noteq> [] \<and> hd s = CHR ''-'');
          ds = (if s \<noteq> [] \<and> (hd s = CHR ''-'' \<or> hd s = CHR ''+'') then tl s else s);
          v = (if neg then - decimal ds else decimal ds)
      in if ds = [] \<or> \<not> list_all isDigit ds then None
         else if v < - (2 ^ 63) \<or> 2 ^ 63 \<le> v then None
         else Some (word_of_int v))"

section \<open>Lexical primitives\<close>

text \<open>\<^verbatim>\<open>forwardParseBuf\<close> and \<^verbatim>\<open>delimiter\<close>, as in \<^verbatim>\<open>parse.go\<close>.\<close>

definition forwardParseBuf :: "string \<Rightarrow> nat \<Rightarrow> string" where
  "forwardParseBuf buf pos = (if pos < length buf then drop pos buf else [])"

definition delimiter :: "char \<Rightarrow> bool" where
  "delimiter b \<longleftrightarrow> b \<in> set ''<>[]()/''"

text \<open>
  Modelled from the spec: \<^verbatim>\<open>trimLeftSpace\<close> is called by \<^verbatim>\<open>parse.go\<close> and defined
  elsewhere in the package. It strips the leading white space and returns the rest with
  the number of bytes stripped.
\<close>

definition trimLeftSpace :: "string \<Rightarrow> string \<times> nat" where
  "trimLeftSpace s = (dropWhile isSpace s, length (takeWhile isSpace s))"

text \<open>
  Modelled from the spec: \<^verbatim>\<open>positionToNextWhitespaceOrChar\<close> is called by \<^verbatim>\<open>parse.go\<close>
  and defined elsewhere in the package. It returns the offset of the first byte that is
  white space or a member of \<open>chars\<close>, with the buffer from there on. When there is no
  such byte the offset is 0 and the buffer is returned whole: this is the convention every
  caller in \<^verbatim>\<open>parse.go\<close> is written for (\<^verbatim>\<open>if i1 > 0 { l1 = l[i1:] } else { l1 = l[len(l):] }\<close>
  in \<^verbatim>\<open>parseNumericOrIndRef\<close>, the branch \<^verbatim>\<open>nothing to cut off\<close> of \<^verbatim>\<open>parseName\<close>,
  \<^verbatim>\<open>if i == 0\<close> for a missing end in \<^verbatim>\<open>parseObjectAttributes\<close>); with the buffer length as
  the offset, \<^verbatim>\<open>delimiter(l[i1])\<close> would read behind the end of the buffer \<^verbatim>\<open>123\<close>.
\<close>

definition positionToNextWhitespaceOrChar :: "string \<Rightarrow> string \<Rightarrow> nat \<times> string" where
  "positionToNextWhitespaceOrChar s chars =
     (let i = length (takeWhile (\<lambda>c. \<not> (c \<in> set chars \<or> isSpace c)) s)
      in if i < length s then (i, drop i s) else (0, s))"

section \<open>Scalar literal parsers\<close>

text \<open>
  A parser receives a pointer \<^verbatim>\<open>line\<close> to the caller's buffer, works on a local copy
  \<^verbatim>\<open>l\<close> and writes \<^verbatim>\<open>*line\<close> where the source does. The model passes the state
  explicitly: a parser takes the content of the caller's buffer and returns the content it
  leaves there, paired with the error (\<open>Inl\<close>) or the value (\<open>Inr\<close>) it returns.
\<close>

text \<open>
  Modelled from the spec: \<^verbatim>\<open>balancedParenthesesPrefix\<close> is called by
  \<^verbatim>\<open>parseStringLiteral\<close> and defined elsewhere in the package. It returns the index of
  the parenthesis that closes the one the buffer starts with, or -1; a backslash escapes
  the byte after it.
\<close>

fun balancedLoop :: "string \<Rightarrow> nat \<Rightarrow> int \<Rightarrow> bool \<Rightarrow> int" where
  "balancedLoop [] i j escaped = -1"
| "balancedLoop (c # cs) i j escaped =
     (if escaped then balancedLoop cs (Suc i) j False
      else if c = CHR 0x5C then balancedLoop cs (Suc i) j True
      else if c = CHR ''('' then balancedLoop cs (Suc i) (j + 1) False
      else if c = CHR '')'' then
        (if j - 1 = 0 then int i else balancedLoop cs (Suc i) (j - 1) False)
      else balancedLoop cs (Suc i) j False)"

definition balancedParenthesesPrefix :: "string \<Rightarrow> int" where
  "balancedParenthesesPrefix s = balancedLoop s 0 0 False"

text \<open>
  Modelled from the spec: \<^verbatim>\<open>stringLiteral\<close> is called by \<^verbatim>\<open>parseStringLiteral\<close> and
  defined elsewhere in the package. It resolves the escape sequences of the text between
  the parentheses: the named escapes, one to three octal digits, a backslash before a line
  break (dropped with the line break), a backslash before any other byte (dropped); a line
  break that is not escaped becomes a single line feed.
\<close>

definition isOctal :: "char \<Rightarrow> bool" where
  "isOctal c \<longleftrightarrow> 48 \<le> (of_char c :: nat) \<and> (of_char c :: nat) \<le> 55"

definition octalByte :: "string \<Rightarrow> char" where
  "octalByte ds = char_of (foldl (\<lambda>n c. 8 * n + (of_char c - 48)) (0::nat) ds)"

fun stringLiteral :: "string \<Rightarrow> string" where
  "stringLiteral [] = []"
| "stringLiteral [c] =
     (if c = CHR 0x5C then [] else if c = CHR 0x0D then [CHR 0x0A] else [c])"
| "stringLiteral (c # d # cs) =
     (if c = CHR 0x5C then
        (if d = CHR ''n'' then CHR 0x0A # stringLiteral cs
         else if d = CHR ''r'' then CHR 0x0D # stringLiteral cs
         else if d = CHR ''t'' then CHR 0x09 # stringLiteral cs
         else if d = CHR ''b'' then CHR 0x08 # stringLiteral cs
         else if d = CHR ''f'' then CHR 0x0C # stringLiteral cs
         else if d = CHR 0x0A then stringLiteral cs
         else if d = CHR 0x0D then
           (case cs of
              [] \<Rightarrow> []
            | e # es \<Rightarrow> if e = CHR 0x0A then stringLiteral es else stringLiteral (e # es))
         else if isOctal d then
           (case cs of
              [] \<Rightarrow> [octalByte [d]]
            | e # es \<Rightarrow>
                if isOctal e then
                  (case es of
                     [] \<Rightarrow> [octalByte [d, e]]
                   | f # fs \<Rightarrow>
                       if isOctal f then octalByte [d, e, f] # stringLiteral fs
                       else octalByte [d, e] # stringLiteral (f # fs))
                else octalByte [d] # stringLiteral (e # es))
         else d # stringLiteral cs)
      else if c = CHR 0x0D then
        (if d = CHR 0x0A then CHR 0x0A # stringLiteral cs
         else CHR 0x0A # stringLiteral (d # cs))
      else c # stringLiteral (d # cs))"

definition parseStringLiteral :: "string \<Rightarrow> string \<times> (error + 'f obj)" where
  "parseStringLiteral line =
     (if length line = 0 then (line, Inl ErrBufNotAvailable)
      else
        let l = line in
        if length l < 2 \<or> \<not> HasPrefix l ''('' then (line, Inl ErrStringLiteralCorrupt)
        else
          let i = balancedParenthesesPrefix l in
          if i < 0 then (line, Inl ErrStringLiteralCorrupt)
          else
            let balParStr = take (nat i - 1) (drop 1 l);
                str = stringLiteral balParStr
            in (forwardParseBuf (drop (nat i) l) 1, Inr (PDFStringLiteral str)))"

text \<open>
  Modelled from the spec: \<^verbatim>\<open>hexString\<close> is called by \<^verbatim>\<open>parseHexLiteral\<close> and defined
  elsewhere in the package. The text between the angle brackets decodes as pairs of hex
  digits of either case, white space between them is skipped, a last single digit is
  padded with 0, and any other byte makes it fail.
\<close>

definition isHexDigit :: "char \<Rightarrow> bool" where
  "isHexDigit c \<longleftrightarrow> isDigit c \<or> c \<in> set ''abcdefABCDEF''"

definition hexVal :: "char \<Rightarrow> nat" where
  "hexVal c =
     (if isDigit c then of_char c - 48
      else if c \<in> set ''abcdef'' then of_char c - 87
      else of_char c - 55)"

fun hexPairs :: "string \<Rightarrow> string" where
  "hexPairs [] = []"
| "hexPairs [a] = [char_of (16 * hexVal a)]"
| "hexPairs (a # b # cs) = char_of (16 * hexVal a + hexVal b) # hexPairs cs"

definition hexString :: "string \<Rightarrow> string option" where
  "hexString s =
     (let ds = filter (\<lambda>c. \<not> isSpace c) s
      in if list_all isHexDigit ds then Some (hexPairs ds) else None)"

definition parseHexLiteral :: "string \<Rightarrow> string \<times> (error + 'f obj)" where
  "parseHexLiteral line =
     (if length line = 0 then (line, Inl ErrBufNotAvailable)
      else
        let l = line in
        if length l < 3 \<or> \<not> HasPrefix l ''<'' then (line, Inl ErrHexLiteralCorrupt)
        else
          let l = forwardParseBuf l 1;
              eov = stringsIndex l ''>''
          in if eov < 0 then (line, Inl ErrHexLiteralNotTerminated)
             else
               (case hexString (take (nat eov) l) of
                  None \<Rightarrow> (line, Inl ErrHexLiteralCorrupt)
                | Some hexStr \<Rightarrow>
                    (forwardParseBuf (drop (nat eov) l) 1, Inr (PDFHexLiteral hexStr))))"

text \<open>
  \<^verbatim>\<open>parseName\<close>. The scan returns 0 both for a terminator at offset 0 and for no
  terminator; the source tells the two apart only by testing \<^verbatim>\<open>l[0]\<close> for white space.
\<close>

definition parseName :: "string \<Rightarrow> string \<times> (error + string)" where
  "parseName line =
     (if length line = 0 then (line, Inl ErrBufNotAvailable)
      else
        let l = line in
        if length l < 2 \<or> \<not> HasPrefix l ''/'' then (line, Inl ErrNameObjectCorrupt)
        else
          let l = forwardParseBuf l 1;
              eok = fst (positionToNextWhitespaceOrChar l ''/<>()[]'')
          in if eok > 0 \<or> isSpace (l ! 0) then (drop eok l, Inr (take eok l))
             else ([], Inr l))"

section \<open>Numeric / indirect-reference disambiguator\<close>

text \<open>
  \<^verbatim>\<open>parseNumericOrIndRef\<close>. \<^verbatim>\<open>strconv.ParseFloat\<close> is the parameter \<open>pf\<close>: it returns
  the float of a token or nothing. Each \<^verbatim>\<open>return\<close> of the source is one result here;
  the first component is the caller's buffer at that point: \<open>l1\<close> after \<^verbatim>\<open>*line = l1\<close>,
  and still \<open>line\<close> where the source has not assigned \<^verbatim>\<open>*line\<close>, as in the branch that
  assigns the local variable (\<^verbatim>\<open>l = l1\<close>) when only white space follows the second
  integer.
\<close>

definition parseNumericOrIndRef ::
  "(string \<Rightarrow> 'f option) \<Rightarrow> string \<Rightarrow> string \<times> (error + 'f obj)" where
  "parseNumericOrIndRef pf line =
     (if length line = 0 then (line, Inl ErrBufNotAvailable)
      else
        let l = line;
            i1 = fst (positionToNextWhitespaceOrChar l ''/<([]>'');
            l1 = (if i1 > 0 then drop i1 l else drop (length l) l);
            str = (if i1 > 0 then take i1 l else l)
        in
          (case Atoi str of
             None \<Rightarrow>
               (case pf str of
                  None \<Rightarrow> (line, Inl (ErrNum ''ParseFloat'' str))
                | Some f \<Rightarrow> (l1, Inr (PDFFloat f)))
           | Some i \<Rightarrow>
               if i1 = 0 \<or> delimiter (l ! i1) then (l1, Inr (PDFInteger i))
               else
                 let l = fst (trimLeftSpace (drop i1 l)) in
                 if length l = 0 then (l1, Inr (PDFInteger i))
                 else
                   let i2 = fst (positionToNextWhitespaceOrChar l ''/<([]>'') in
                   if i2 = 0 \<or> delimiter (l ! i2) then (l1, Inr (PDFInteger i))
                   else
                     let str = (if i2 > 0 then take i2 l else l) in
                     (case Atoi str of
                        None \<Rightarrow> (l1, Inr (PDFInteger i))
                      | Some iref2 \<Rightarrow>
                          let l = fst (trimLeftSpace (drop i2 l)) in
                          if length l = 0 then (line, Inr (PDFInteger i))
                          else if l ! 0 = CHR ''R'' then
                            (forwardParseBuf l 1, Inr (PDFIndirectRef i iref2))
                          else (l1, Inr (PDFInteger i)))))"

section \<open>Object-attribute parser\<close>

text \<open>\<^verbatim>\<open>parseObjectAttributes\<close>: the caller's buffer is assigned once, before the last return.\<close>

definition parseObjectAttributes :: "string \<Rightarrow> string \<times> (error + goint \<times> goint)" where
  "parseObjectAttributes line =
     (if length line = 0 then (line, Inl ErrAttrBufNotAvailable)
      else
        let l = line;
            i = stringsIndex l ''obj''
        in
          if i < 0 then (line, Inl ErrAttrNoObj)
          else
            let remainder = drop (nat i + length ''obj'') l;
                l = take (nat i) l;
                l = fst (trimLeftSpace l)
            in
              if length l = 0 then (line, Inl ErrAttrNoObjectNumber)
              else
                let i = fst (positionToNextWhitespaceOrChar l ''%'') in
                if i = 0 then (line, Inl ErrAttrNoEndOfObjectNumber)
                else
                  (case Atoi (take i l) of
                     None \<Rightarrow> (line, Inl (ErrNum ''Atoi'' (take i l)))
                   | Some objNr \<Rightarrow>
                       let l = drop i l;
                           l = fst (trimLeftSpace l)
                       in
                         if length l = 0 then (line, Inl ErrAttrNoGenerationNumber)
                         else
                           let i = fst (positionToNextWhitespaceOrChar l ''%'') in
                           if i = 0 then (line, Inl ErrAttrNoEndOfGenerationNumber)
                           else
                             (case Atoi (take i l) of
                                None \<Rightarrow> (line, Inl (ErrNum ''Atoi'' (take i l)))
                              | Some genNr \<Rightarrow> (remainder, Inr (objNr, genNr)))))"

section \<open>Composite parsers and the object dispatcher\<close>

text \<open>
  Modelled from the spec: \<^verbatim>\<open>PDFDict.Insert\<close> of package \<^verbatim>\<open>types\<close>. It adds an entry
  behind the others and reports success; a key that is present already is refused and the
  dictionary stays as it is.
\<close>

definition Insert ::
  "(string \<times> 'f obj) list \<Rightarrow> string \<Rightarrow> 'f obj \<Rightarrow> (string \<times> 'f obj) list \<times> bool" where
  "Insert dict key v =
     (if key \<in> set (map fst dict) then (dict, False) else (dict @ [(key, v)], True))"

text \<open>
  \<^verbatim>\<open>parseObject\<close>, \<^verbatim>\<open>parseArray\<close> and \<^verbatim>\<open>parseDict\<close> call each other, and the loops of
  the last two run as long as the buffer does not start with the closing bracket. Nothing
  in the source bounds them, so the model counts calls and iterations down from a fuel
  and returns \<open>None\<close> when it is used up; \<open>Some\<close> is a return of the source. The loops
  are \<open>parseArrayLoop\<close> and \<open>parseDictLoop\<close> over the local variables \<^verbatim>\<open>l\<close> and
  \<^verbatim>\<open>arr\<close> or \<^verbatim>\<open>dict\<close>; they return the error of a \<^verbatim>\<open>return\<close> inside the loop or the
  variables at the loop's exit.
\<close>

function (sequential) parseObject ::
    "(string \<Rightarrow> 'f option) \<Rightarrow> nat \<Rightarrow> string \<Rightarrow> (string \<times> (error + 'f obj)) option"
  and parseArray ::
    "(string \<Rightarrow> 'f option) \<Rightarrow> nat \<Rightarrow> string \<Rightarrow> (string \<times> (error + 'f obj list)) option"
  and parseArrayLoop ::
    "(string \<Rightarrow> 'f option) \<Rightarrow> nat \<Rightarrow> string \<Rightarrow> 'f obj list
       \<Rightarrow> (error + string \<times> 'f obj list) option"
  and parseDict ::
    "(string \<Rightarrow> 'f option) \<Rightarrow> nat \<Rightarrow> string
       \<Rightarrow> (string \<times> (error + (string \<times> 'f obj) list)) option"
  and parseDictLoop ::
    "(string \<Rightarrow> 'f option) \<Rightarrow> nat \<Rightarrow> string \<Rightarrow> (string \<times> 'f obj) list
       \<Rightarrow> (error + string \<times> (string \<times> 'f obj) list) option"
where
  "parseObject pf 0 line = None"
| "parseObject pf (Suc n) line =
     (if length line = 0 then Some (line, Inl ErrBufNotAvailable)
      else
        let l = fst (trimLeftSpace line) in
        if length l = 0 then Some (line, Inl ErrBufNotAvailable)
        else if l ! 0 = CHR ''['' then
          (case parseArray pf n l of
             None \<Rightarrow> None
           | Some (l', Inl err) \<Rightarrow> Some (line, Inl err)
           | Some (l', Inr pdfArray) \<Rightarrow> Some (l', Inr (PDFArray pdfArray)))
        else if l ! 0 = CHR ''/'' then
          (case parseName l of
             (l', Inl err) \<Rightarrow> Some (line, Inl err)
           | (l', Inr nameObj) \<Rightarrow> Some (l', Inr (PDFName nameObj)))
        else if l ! 0 = CHR ''<'' then
          (if length l < 2 then Some (line, Inl ErrBufNotAvailable)
           else if l ! 1 = CHR ''<'' then
             (case parseDict pf n l of
                None \<Rightarrow> None
              | Some (l', Inl err) \<Rightarrow> Some (line, Inl err)
              | Some (l', Inr pdfDict) \<Rightarrow> Some (l', Inr (PDFDict pdfDict)))
           else
             (case parseHexLiteral l of
                (l', Inl err) \<Rightarrow> Some (line, Inl err)
              | (l', Inr v) \<Rightarrow> Some (l', Inr v)))
        else if l ! 0 = CHR ''('' then
          (case parseStringLiteral l of
             (l', Inl err) \<Rightarrow> Some (line, Inl err)
           | (l', Inr v) \<Rightarrow> Some (l', Inr v))
        else if HasPrefix l ''null'' then
          Some (forwardParseBuf l (length ''null''), Inr PDFNull)
        else if HasPrefix l ''true'' then
          Some (forwardParseBuf l (length ''true''), Inr (PDFBoolean True))
        else if HasPrefix l ''false'' then
          Some (forwardParseBuf l (length ''false''), Inr (PDFBoolean False))
        else
          (case parseNumericOrIndRef pf l of
             (l', Inl err) \<Rightarrow> Some (line, Inl err)
           | (l', Inr v) \<Rightarrow> Some (l', Inr v)))"
| "parseArray pf 0 line = None"
| "parseArray pf (Suc n) line =
     (if length line = 0 then Some (line, Inl ErrNoArray)
      else
        let l = line in
        if \<not> HasPrefix l ''['' then Some (line, Inl ErrArrayCorrupt)
        else if length l = 1 then Some (line, Inl ErrArrayNotTerminated)
        else
          let l = forwardParseBuf l 1;
              l = fst (trimLeftSpace l)
          in
            if length l = 0 then Some (line, Inl ErrArrayNotTerminated)
            else
              (case parseArrayLoop pf n l [] of
                 None \<Rightarrow> None
               | Some (Inl err) \<Rightarrow> Some (line, Inl err)
               | Some (Inr (l, arr)) \<Rightarrow> Some (forwardParseBuf l 1, Inr arr)))"
| "parseArrayLoop pf 0 l arr = None"
| "parseArrayLoop pf (Suc n) l arr =
     (if HasPrefix l '']'' then Some (Inr (l, arr))
      else
        (case parseObject pf n l of
           None \<Rightarrow> None
         | Some (l, Inl err) \<Rightarrow> Some (Inl err)
         | Some (l, Inr obj) \<Rightarrow>
             let arr = arr @ [obj] in
             if length l = 0 then Some (Inl ErrArrayNotTerminated)
             else
               let l = fst (trimLeftSpace l) in
               if length l = 0 then Some (Inl ErrArrayNotTerminated)
               else parseArrayLoop pf n l arr))"
| "parseDict pf 0 line = None"
| "parseDict pf (Suc n) line =
     (if length line = 0 then Some (line, Inl ErrNoDictionary)
      else
        let l = line in
        if length l < 4 \<or> \<not> HasPrefix l ''<<'' then Some (line, Inl ErrDictionaryCorrupt)
        else
          let l = forwardParseBuf l 2;
              l = fst (trimLeftSpace l)
          in
            if length l = 0 then Some (line, Inl ErrDictionaryNotTerminated)
            else
              (case parseDictLoop pf n l [] of
                 None \<Rightarrow> None
               | Some (Inl err) \<Rightarrow> Some (line, Inl err)
               | Some (Inr (l, dict)) \<Rightarrow> Some (forwardParseBuf l 2, Inr dict)))"
| "parseDictLoop pf 0 l dict = None"
| "parseDictLoop pf (Suc n) l dict =
     (if HasPrefix l ''>>'' then Some (Inr (l, dict))
      else
        (case parseName l of
           (l, Inl err) \<Rightarrow> Some (Inl err)
         | (l, Inr key) \<Rightarrow>
             let l = fst (trimLeftSpace l) in
             if length l = 0 then Some (Inl ErrDictionaryNotTerminated)
             else
               (case parseObject pf n l of
                  None \<Rightarrow> None
                | Some (l, Inl err) \<Rightarrow> Some (Inl err)
                | Some (l, Inr obj) \<Rightarrow>
                    (case Insert dict key obj of
                       (dict, ok) \<Rightarrow>
                         if \<not> ok then Some (Inl ErrDictionaryDuplicateKey)
                         else if length l = 0 then Some (Inl ErrDictionaryNotTerminated)
                         else
                           let l = fst (trimLeftSpace l) in
                           if length l = 0 then Some (Inl ErrDictionaryNotTerminated)
                           else parseDictLoop pf n l dict))))"
  by pat_completeness auto

termination
  by (relation "measure (\<lambda>x. case x of
        Inl (Inl (pf, n, l)) \<Rightarrow> n
      | Inl (Inr (pf, n, l)) \<Rightarrow> n
      | Inr (Inl (pf, n, l, arr)) \<Rightarrow> n
      | Inr (Inr (Inl (pf, n, l))) \<Rightarrow> n
      | Inr (Inr (Inr (pf, n, l, dict))) \<Rightarrow> n)") simp_all

text \<open>
  An instance of the float parser for closed statements: the plain decimal literals, an
  optional sign and digits around at most one point, with the mantissa and the number of
  digits behind the point as the value.
\<close>

definition decimalFloat :: "string \<Rightarrow> (int \<times> nat) option" where
  "decimalFloat s =
     (let neg = (s \<noteq> [] \<and> hd s = CHR ''-'');
          body = (if s \<noteq> [] \<and> (hd s = CHR ''-'' \<or> hd s = CHR ''+'') then tl s else s);
          ip = takeWhile isDigit body;
          r = dropWhile isDigit body;
          fp = (if r \<noteq> [] \<and> hd r = CHR ''.'' then tl r else r)
      in if ip @ fp = [] \<or> \<not> list_all isDigit fp then None
         else Some ((if neg then - decimal (ip @ fp) else decimal (ip @ fp)), length fp))"

section \<open>Stream-dictionary decoders\<close>

text \<open>
  Modelled from the spec: \<^verbatim>\<open>PDFStreamDict\<close> of package \<^verbatim>\<open>types\<close> is read through its
  typed accessors \<^verbatim>\<open>Size()\<close>, \<^verbatim>\<open>Index()\<close>, \<^verbatim>\<open>W()\<close>, \<^verbatim>\<open>Prev()\<close>, \<^verbatim>\<open>First()\<close> and
  \<^verbatim>\<open>N()\<close>, each returning an optional value: the record of what they return.
\<close>

record 'f PDFStreamDict =
  Size :: "goint option"
  Index :: "'f obj list option"
  W :: "'f obj list option"
  Prev :: "goint option"
  First :: "goint option"
  N :: "goint option"

text \<open>
  The descriptors \<^verbatim>\<open>PDFXRefStreamDict\<close> and \<^verbatim>\<open>PDFObjectStreamDict\<close> with the fields
  the decoders set; \<^verbatim>\<open>ObjArray\<close> is \<^verbatim>\<open>nil\<close>, the empty list.
\<close>

record 'f PDFXRefStreamDict =
  XRefStreamDict :: "'f PDFStreamDict"
  XRefSize :: goint
  Objects :: "goint list"
  XRefW :: "goint \<times> goint \<times> goint"
  PreviousOffset :: "goint option"

record 'f PDFObjectStreamDict =
  ObjStreamDict :: "'f PDFStreamDict"
  ObjCount :: goint
  FirstObjOffset :: goint
  ObjArray :: "'f obj list"

text \<open>
  The loop over the pairs of \<^verbatim>\<open>Index\<close>: \<^verbatim>\<open>for i := 0; i < len(indArr)/2; i++\<close>. The inner
  loop appends \<^verbatim>\<open>startObj.Value()+j\<close> for \<^verbatim>\<open>j\<close> from 0 as long as \<^verbatim>\<open>j < count.Value()\<close>, in
  64-bit integers.
\<close>

function indexLoop :: "'f obj list \<Rightarrow> nat \<Rightarrow> goint list \<Rightarrow> error + goint list" where
  "indexLoop indArr i objs =
     (if i < length indArr div 2 then
        (case indArr ! (i * 2) of
           PDFInteger startObj \<Rightarrow>
             (case indArr ! (i * 2 + 1) of
                PDFInteger count \<Rightarrow>
                  indexLoop indArr (Suc i)
                    (objs @ map (\<lambda>j. startObj + of_nat j) [0..<nat (sint count)])
              | _ \<Rightarrow> Inl ErrXrefStreamCorruptIndex)
         | _ \<Rightarrow> Inl ErrXrefStreamCorruptIndex)
      else Inr objs)"
  by pat_completeness auto

termination
  by (relation "measure (\<lambda>(indArr, i, objs). length indArr div 2 - i)") auto

text \<open>
  \<^verbatim>\<open>parseXRefStreamDict\<close> in two parts. \<open>xrefObjects\<close> is the part that builds
  \<^verbatim>\<open>objs\<close>, from \<^verbatim>\<open>Index\<close> when that entry is present and from \<^verbatim>\<open>Size\<close> otherwise;
  the test before the loop is the source's \<^verbatim>\<open>len(indArr)%2 > 1\<close>.
\<close>

definition xrefObjects :: "'f PDFStreamDict \<Rightarrow> goint \<Rightarrow> error + goint list" where
  "xrefObjects pdfStreamDict sz =
     (case Index pdfStreamDict of
        Some indArr \<Rightarrow>
          if length indArr mod 2 > 1 then Inl ErrXrefStreamCorruptIndex
          else indexLoop indArr 0 []
      | None \<Rightarrow> Inr (map of_nat [0..<nat (sint sz)]))"

definition parseXRefStreamDict :: "'f PDFStreamDict \<Rightarrow> error + 'f PDFXRefStreamDict" where
  "parseXRefStreamDict pdfStreamDict =
     (case Size pdfStreamDict of
        None \<Rightarrow> Inl ErrXrefStreamMissingSize
      | Some sz \<Rightarrow>
          (case xrefObjects pdfStreamDict sz of
             Inl err \<Rightarrow> Inl err
           | Inr objs \<Rightarrow>
               (case W pdfStreamDict of
                  None \<Rightarrow> Inl ErrXrefStreamMissingW
                | Some arr \<Rightarrow>
                    if length arr \<noteq> 3 then Inl ErrXrefStreamCorruptW
                    else
                      (case arr ! 0 of
                         PDFInteger i1 \<Rightarrow>
                           if sint i1 < 0 then Inl ErrXrefStreamCorruptW
                           else
                             (case arr ! 1 of
                                PDFInteger i2 \<Rightarrow>
                                  if sint i2 < 0 then Inl ErrXrefStreamCorruptW
                                  else
                                    (case arr ! 2 of
                                       PDFInteger i3 \<Rightarrow>
                                         if sint i3 < 0 then Inl ErrXrefStreamCorruptW
                                         else
                                           Inr \<lparr>XRefStreamDict = pdfStreamDict,
                                                XRefSize = sz,
                                                Objects = objs,
                                                XRefW = (i1, i2, i3),
                                                PreviousOffset = Prev pdfStreamDict\<rparr>
                                     | _ \<Rightarrow> Inl ErrXrefStreamCorruptW)
                              | _ \<Rightarrow> Inl ErrXrefStreamCorruptW)
                       | _ \<Rightarrow> Inl ErrXrefStreamCorruptW))))"

definition objectStreamDict :: "'f PDFStreamDict \<Rightarrow> error + 'f PDFObjectStreamDict" where
  "objectStreamDict pdfStreamDict =
     (case First pdfStreamDict of
        None \<Rightarrow> Inl ErrObjStreamMissingFirst
      | Some first \<Rightarrow>
          (case N pdfStreamDict of
             None \<Rightarrow> Inl ErrObjStreamMissingN
           | Some n \<Rightarrow>
               Inr \<lparr>ObjStreamDict = pdfStreamDict, ObjCount = n,
                    FirstObjOffset = first, ObjArray = []\<rparr>))"

text \<open>
  An \<^verbatim>\<open>Index\<close> array made of integer pairs \<open>(start, count)\<close>, and a stream dictionary
  with the given \<^verbatim>\<open>Size\<close>, \<^verbatim>\<open>Index\<close> and \<^verbatim>\<open>W\<close> and no other entry.
\<close>

definition indexPairs :: "(goint \<times> goint) list \<Rightarrow> 'f obj list" where
  "indexPairs ps = concat (map (\<lambda>(s, c). [PDFInteger s, PDFInteger c]) ps)"

definition streamDict ::
  "goint option \<Rightarrow> 'f obj list option \<Rightarrow> 'f obj list option \<Rightarrow> 'f PDFStreamDict" where
  "streamDict sz idx w =
     \<lparr>Size = sz, Index = idx, W = w, Prev = None, First = None, N = None\<rparr>"


section \<open>Parsers called with a pointer\<close>

text \<open>
  Every parser starts with \<^verbatim>\<open>line == nil || len(*line) == 0\<close>. The functions above are
  the parsers on the buffer that \<^verbatim>\<open>line\<close> points to; the functions below take the
  pointer itself, \<open>None\<close> for \<^verbatim>\<open>nil\<close>, and return the error of that first test when
  there is no buffer.
\<close>

definition onBuffer ::
  "(string \<times> (error + 'a)) \<Rightarrow> string option \<times> (error + 'a)" where
  "onBuffer res = (case res of (l, r) \<Rightarrow> (Some l, r))"

definition parseObjectPtr ::
  "(string \<Rightarrow> 'f option) \<Rightarrow> nat \<Rightarrow> string option
     \<Rightarrow> (string option \<times> (error + 'f obj)) option" where
  "parseObjectPtr pf n line =
     (case line of
        None \<Rightarrow> Some (None, Inl ErrBufNotAvailable)
      | Some l \<Rightarrow> map_option onBuffer (parseObject pf n l))"

definition parseArrayPtr ::
  "(string \<Rightarrow> 'f option) \<Rightarrow> nat \<Rightarrow> string option
     \<Rightarrow> (string option \<times> (error + 'f obj list)) option" where
  "parseArrayPtr pf n line =
     (case line of
        None \<Rightarrow> Some (None, Inl ErrNoArray)
      | Some l \<Rightarrow> map_option onBuffer (parseArray pf n l))"

definition parseDictPtr ::
  "(string \<Rightarrow> 'f option) \<Rightarrow> nat \<Rightarrow> string option
     \<Rightarrow> (string option \<times> (error + (string \<times> 'f obj) list)) option" where
  "parseDictPtr pf n line =
     (case line of
        None \<Rightarrow> Some (None, Inl ErrNoDictionary)
      | Some l \<Rightarrow> map_option onBuffer (parseDict pf n l))"

definition parseNamePtr :: "string option \<Rightarrow> string option \<times> (error + string)" where
  "parseNamePtr line =
     (case line of
        None \<Rightarrow> (None, Inl ErrBufNotAvailable)
      | Some l \<Rightarrow> onBuffer (parseName l))"

definition parseStringLiteralPtr :: "string option \<Rightarrow> string option \<times> (error + 'f obj)" where
  "parseStringLiteralPtr line =
     (case line of
        None \<Rightarrow> (None, Inl ErrBufNotAvailable)
      | Some l \<Rightarrow> onBuffer (parseStringLiteral l))"

definition parseHexLiteralPtr :: "string option \<Rightarrow> string option \<times> (error + 'f obj)" where
  "parseHexLiteralPtr line =
     (case line of
        None \<Rightarrow> (None, Inl ErrBufNotAvailable)
      | Some l \<Rightarrow> onBuffer (parseHexLiteral l))"

definition parseNumericOrIndRefPtr ::
  "(string \<Rightarrow> 'f option) \<Rightarrow> string option \<Rightarrow> string option \<times> (error + 'f obj)" where
  "parseNumericOrIndRefPtr pf line =
     (case line of
        None \<Rightarrow> (None, Inl ErrBufNotAvailable)
      | Some l \<Rightarrow> onBuffer (parseNumericOrIndRef pf l))"

section \<open>Lemmas on the lexical primitives\<close>

declare indexLoop.simps [simp del]

lemma isSpace_not_delimiter: "isSpace c \<Longrightarrow> \<not> delimiter c"
  by (auto simp: isSpace_def delimiter_def)

lemma isDigit_not_sep: "isDigit c \<Longrightarrow> \<not> isSpace c \<and> c \<notin> set ''/<([]>''"
  by (auto simp: isDigit_def isSpace_def)

lemma sign_not_sep:
  "c = CHR ''-'' \<or> c = CHR ''+'' \<Longrightarrow> \<not> isSpace c \<and> c \<notin> set ''/<([]>''"
  by (auto simp: isSpace_def)

lemma bracket_not_space [simp]:
  "\<not> isSpace (CHR ''<'')" "\<not> isSpace (CHR ''>'')" "\<not> isSpace (CHR ''['')" "\<not> isSpace (CHR '']'')"
  by (simp_all add: isSpace_def)

text \<open>A token that \<open>Atoi\<close> accepts has no white space and no delimiter in it.\<close>

lemma Atoi_token:
  assumes "Atoi t = Some a"
  shows "t \<noteq> [] \<and> (\<forall>c \<in> set t. \<not> (c \<in> set ''/<([]>'' \<or> isSpace c))"
proof (cases t)
  case Nil
  with assms show ?thesis by (simp add: Atoi_def)
next
  case (Cons x xs)
  show ?thesis
  proof (cases "x = CHR ''-'' \<or> x = CHR ''+''")
    case True
    with assms Cons have "list_all isDigit xs"
      by (auto simp: Atoi_def Let_def split: if_splits)
    then have "\<forall>c \<in> set xs. \<not> (c \<in> set ''/<([]>'' \<or> isSpace c)"
      using isDigit_not_sep by (auto simp: list_all_iff)
    with sign_not_sep [OF True] Cons show ?thesis by auto
  next
    case False
    with assms Cons have "list_all isDigit (x # xs)"
      by (auto simp: Atoi_def Let_def split: if_splits)
    then have "\<forall>c \<in> set (x # xs). \<not> (c \<in> set ''/<([]>'' \<or> isSpace c)"
      using isDigit_not_sep unfolding list_all_iff by blast
    with Cons show ?thesis by simp
  qed
qed

text \<open>The scan stops at the white space behind a token, and the trim removes it.\<close>

lemma scan_token:
  assumes "t \<noteq> []" and "\<forall>c \<in> set t. \<not> (c \<in> set chars \<or> isSpace c)"
    and "w \<noteq> []" and "hd w \<in> set chars \<or> isSpace (hd w)"
  shows "fst (positionToNextWhitespaceOrChar (t @ w @ r) chars) = length t"
proof -
  obtain x xs where w: "w = x # xs" using assms(3) by (cases w) auto
  have "takeWhile (\<lambda>c. \<not> (c \<in> set chars \<or> isSpace c)) (t @ w @ r) = t"
    using assms(2,4) w by (simp add: takeWhile_append2)
  then show ?thesis
    using w by (simp add: positionToNextWhitespaceOrChar_def)
qed

text \<open>
  The offset that the scan returns is inside the buffer, so \<^verbatim>\<open>l[i1]\<close>, \<^verbatim>\<open>l[i2]\<close> and
  \<^verbatim>\<open>l[0]\<close> in the callers never read behind its end.
\<close>

lemma position_in_range:
  "s \<noteq> [] \<Longrightarrow> fst (positionToNextWhitespaceOrChar s chars) < length s"
  by (simp add: positionToNextWhitespaceOrChar_def Let_def)

lemma trim_ws:
  assumes "\<forall>c \<in> set w. isSpace c" and "r = [] \<or> \<not> isSpace (hd r)"
  shows "fst (trimLeftSpace (w @ r)) = r"
proof -
  have "dropWhile isSpace (w @ r) = dropWhile isSpace r"
    using assms(1) by (simp add: dropWhile_append2)
  also have "\<dots> = r" using assms(2) by (cases r) auto
  finally show ?thesis by (simp add: trimLeftSpace_def)
qed

lemma forward_all: "forwardParseBuf (p @ r) (length p) = r"
  by (simp add: forwardParseBuf_def)

lemma forward_one: "forwardParseBuf r (Suc 0) = tl r"
  by (cases r) (simp_all add: forwardParseBuf_def drop_Suc)

text \<open>
  A buffer that starts with an integer token is dispatched to \<open>parseNumericOrIndRef\<close>:
  its first byte is a digit or a sign.
\<close>

lemma Atoi_hd:
  assumes "Atoi t = Some a"
  shows "\<exists>x xs. t = x # xs \<and> \<not> isSpace x \<and> x \<notin> set ''[/<(ntf''"
proof (cases t)
  case Nil
  with assms show ?thesis by (simp add: Atoi_def)
next
  case (Cons x xs)
  have "isDigit x \<or> x = CHR ''-'' \<or> x = CHR ''+''"
    using assms Cons by (auto simp: Atoi_def Let_def split: if_splits)
  then have "\<not> isSpace x \<and> x \<notin> set ''[/<(ntf''"
    by (auto simp: isDigit_def isSpace_def)
  with Cons show ?thesis by simp
qed

lemma parseObject_numeric:
  assumes "Atoi t = Some a" and "line = t @ rest"
  shows "parseObject pf (Suc n) line =
     (case parseNumericOrIndRef pf line of
        (l', Inl err) \<Rightarrow> Some (line, Inl err)
      | (l', Inr v) \<Rightarrow> Some (l', Inr v))"
proof -
  from Atoi_hd [OF assms(1)] assms(2) obtain x xs
    where t: "line = x # xs" and x: "\<not> isSpace x" "x \<notin> set ''[/<(ntf''" by auto
  have "fst (trimLeftSpace line) = line"
    using t x by (simp add: trimLeftSpace_def)
  then show ?thesis
    using t x by (auto simp: Let_def HasPrefix_def)
qed

section \<open>Fuel\<close>

text \<open>
  A result does not depend on the fuel: what a parser returns with some fuel it returns
  with any larger fuel.
\<close>

lemma fuel_Suc:
  "(\<forall>l r. parseObject pf n l = Some r \<longrightarrow> parseObject pf (Suc n) l = Some r) \<and>
   (\<forall>l r. parseArray pf n l = Some r \<longrightarrow> parseArray pf (Suc n) l = Some r) \<and>
   (\<forall>l arr r. parseArrayLoop pf n l arr = Some r \<longrightarrow>
      parseArrayLoop pf (Suc n) l arr = Some r) \<and>
   (\<forall>l r. parseDict pf n l = Some r \<longrightarrow> parseDict pf (Suc n) l = Some r) \<and>
   (\<forall>l dict r. parseDictLoop pf n l dict = Some r \<longrightarrow>
      parseDictLoop pf (Suc n) l dict = Some r)"
proof (induction n)
  case 0
  show ?case by simp
next
  case (Suc n)
  then have o: "\<And>l r. parseObject pf n l = Some r \<Longrightarrow> parseObject pf (Suc n) l = Some r"
    and al: "\<And>l arr r. parseArrayLoop pf n l arr = Some r \<Longrightarrow>
      parseArrayLoop pf (Suc n) l arr = Some r"
    and a: "\<And>l r. parseArray pf n l = Some r \<Longrightarrow> parseArray pf (Suc n) l = Some r"
    and d: "\<And>l r. parseDict pf n l = Some r \<Longrightarrow> parseDict pf (Suc n) l = Some r"
    and dl: "\<And>l dict r. parseDictLoop pf n l dict = Some r \<Longrightarrow>
      parseDictLoop pf (Suc n) l dict = Some r"
    by blast+
  have 1: "parseObject pf (Suc (Suc n)) l = Some r"
    if h: "parseObject pf (Suc n) l = Some r" for l r
    using h
    apply (subst parseObject.simps(2))
    apply (subst (asm) parseObject.simps(2))
    apply (auto simp add: Let_def simp del: parseObject.simps parseArray.simps parseDict.simps
        dest!: a d split: if_splits option.splits prod.splits sum.splits)
    done
  have 2: "parseArray pf (Suc (Suc n)) l = Some r"
    if h: "parseArray pf (Suc n) l = Some r" for l r
    using h
    apply (subst parseArray.simps(2))
    apply (subst (asm) parseArray.simps(2))
    apply (auto simp add: Let_def simp del: parseArray.simps parseArrayLoop.simps
        dest!: al split: if_splits option.splits prod.splits sum.splits)
    done
  have 3: "parseArrayLoop pf (Suc (Suc n)) l arr = Some r"
    if h: "parseArrayLoop pf (Suc n) l arr = Some r" for l arr r
    using h
    apply (subst parseArrayLoop.simps(2))
    apply (subst (asm) parseArrayLoop.simps(2))
    apply (auto simp add: Let_def simp del: parseObject.simps parseArrayLoop.simps
        dest!: o al split: if_splits option.splits prod.splits sum.splits)
    done
  have 4: "parseDict pf (Suc (Suc n)) l = Some r"
    if h: "parseDict pf (Suc n) l = Some r" for l r
    using h
    apply (subst parseDict.simps(2))
    apply (subst (asm) parseDict.simps(2))
    apply (auto simp add: Let_def simp del: parseDict.simps parseDictLoop.simps
        dest!: dl split: if_splits option.splits prod.splits sum.splits)
    done
  have 5: "parseDictLoop pf (Suc (Suc n)) l dict = Some r"
    if h: "parseDictLoop pf (Suc n) l dict = Some r" for l dict r
    using h
    apply (subst parseDictLoop.simps(2))
    apply (subst (asm) parseDictLoop.simps(2))
    apply (auto simp add: Let_def simp del: parseObject.simps parseDictLoop.simps
        dest!: o dl split: if_splits option.splits prod.splits sum.splits)
    done
  from 1 2 3 4 5 show ?case by blast
qed

lemma parseObject_fuel_mono:
  "n \<le> m \<Longrightarrow> parseObject pf n l = Some r \<Longrightarrow> parseObject pf m l = Some r"
proof (induction m)
  case 0
  then show ?case by simp
next
  case (Suc m)
  show ?case
  proof (cases "n = Suc m")
    case True
    with Suc.prems show ?thesis by simp
  next
    case False
    with Suc.prems have "n \<le> m" by simp
    from Suc.IH [OF this Suc.prems(2)] fuel_Suc [of pf m] show ?thesis by blast
  qed
qed

lemma parseArray_fuel_mono:
  "n \<le> m \<Longrightarrow> parseArray pf n l = Some r \<Longrightarrow> parseArray pf m l = Some r"
proof (induction m)
  case 0
  then show ?case by simp
next
  case (Suc m)
  show ?case
  proof (cases "n = Suc m")
    case True
    with Suc.prems show ?thesis by simp
  next
    case False
    with Suc.prems have "n \<le> m" by simp
    from Suc.IH [OF this Suc.prems(2)] fuel_Suc [of pf m] show ?thesis by blast
  qed
qed

lemma parseDict_fuel_mono:
  "n \<le> m \<Longrightarrow> parseDict pf n l = Some r \<Longrightarrow> parseDict pf m l = Some r"
proof (induction m)
  case 0
  then show ?case by simp
next
  case (Suc m)
  show ?case
  proof (cases "n = Suc m")
    case True
    with Suc.prems show ?thesis by simp
  next
    case False
    with Suc.prems have "n \<le> m" by simp
    from Suc.IH [OF this Suc.prems(2)] fuel_Suc [of pf m] show ?thesis by blast
  qed
qed

section \<open>The numeric / indirect-reference disambiguator\<close>

text \<open>
  The result on a buffer that starts with two integer tokens \<open>ta\<close> and \<open>tb\<close>, each
  followed by white space (\<open>wa\<close>, \<open>wb\<close>), and goes on with \<open>r\<close>. In the first case
  the caller's buffer is returned as it was.
\<close>

lemma two_integers:
  assumes ta: "Atoi ta = Some a" and tb: "Atoi tb = Some b"
    and wa: "wa \<noteq> []" "\<forall>c \<in> set wa. isSpace c"
    and wb: "wb \<noteq> []" "\<forall>c \<in> set wb. isSpace c"
    and r: "r = [] \<or> \<not> isSpace (hd r)"
  shows "parseNumericOrIndRef pf (ta @ wa @ tb @ wb @ r) =
      (if length r = 0 then (ta @ wa @ tb @ wb @ r, Inr (PDFInteger a))
       else if r ! 0 = CHR ''R'' then (tl r, Inr (PDFIndirectRef a b))
       else (wa @ tb @ wb @ r, Inr (PDFInteger a)))"
proof -
  let ?line = "ta @ wa @ tb @ wb @ r"
  from Atoi_token [OF ta]
  have k1: "ta \<noteq> []" "\<forall>c \<in> set ta. \<not> (c \<in> set ''/<([]>'' \<or> isSpace c)"
    by simp_all
  from Atoi_token [OF tb]
  have k2: "tb \<noteq> []" "\<forall>c \<in> set tb. \<not> (c \<in> set ''/<([]>'' \<or> isSpace c)"
    by simp_all
  have h1: "isSpace (hd wa)" and h2: "isSpace (hd wb)" using wa wb by simp_all
  have i1: "fst (positionToNextWhitespaceOrChar ?line ''/<([]>'') = length ta"
    using scan_token [OF k1 wa(1) disjI2 [OF h1]] by simp
  have n1: "?line ! length ta = hd wa"
    using wa(1) by (cases wa) (simp_all add: nth_append)
  have l2: "fst (trimLeftSpace (wa @ tb @ wb @ r)) = tb @ wb @ r"
    using trim_ws [OF wa(2), of "tb @ wb @ r"] k2 by (cases tb) simp_all
  have i2: "fst (positionToNextWhitespaceOrChar (tb @ wb @ r) ''/<([]>'') = length tb"
    using scan_token [OF k2 wb(1) disjI2 [OF h2]] by simp
  have n2: "(tb @ wb @ r) ! length tb = hd wb"
    using wb(1) by (cases wb) (simp_all add: nth_append)
  have l3: "fst (trimLeftSpace (wb @ r)) = r"
    using trim_ws [OF wb(2) r] .
  have ne: "?line \<noteq> []" using k1 by simp
  show ?thesis
    using ne k1(1) k2(1) isSpace_not_delimiter [OF h1] isSpace_not_delimiter [OF h2]
    by (simp add: parseNumericOrIndRef_def Let_def i1 n1 l2 i2 n2 l3 forward_one ta tb)
qed

text \<open>
  C1 (as amended). For every buffer that starts with two valid integer tokens, each
  followed by white space, \<open>parseNumericOrIndRef\<close> returns the indirect reference of the
  two integers and leaves the caller's buffer just behind the \<open>R\<close> exactly when the
  first byte behind that white space is \<open>R\<close>, whatever follows the \<open>R\<close>; when that
  byte is another one or the buffer ends there, it returns the first integer.
  \<open>parseObject\<close> returns the same on such a buffer, with any fuel.
\<close>

theorem indirect_ref_iff_R:
  assumes "Atoi ta = Some a" and "Atoi tb = Some b"
    and "wa \<noteq> []" and "\<forall>c \<in> set wa. isSpace c"
    and "wb \<noteq> []" and "\<forall>c \<in> set wb. isSpace c"
    and "r = [] \<or> \<not> isSpace (hd r)"
  shows "if r \<noteq> [] \<and> hd r = CHR ''R''
         then parseNumericOrIndRef pf (ta @ wa @ tb @ wb @ r) =
                (tl r, Inr (PDFIndirectRef a b)) \<and>
              parseObject pf (Suc n) (ta @ wa @ tb @ wb @ r) =
                Some (tl r, Inr (PDFIndirectRef a b))
         else snd (parseNumericOrIndRef pf (ta @ wa @ tb @ wb @ r)) = Inr (PDFInteger a) \<and>
              map_option snd (parseObject pf (Suc n) (ta @ wa @ tb @ wb @ r)) =
                Some (Inr (PDFInteger a))"
  unfolding parseObject_numeric [OF assms(1) refl] two_integers [OF assms]
  by (cases r) simp_all

theorem indirect_ref_iff_R_witness:
  "parseNumericOrIndRef decimalFloat ''123 0 R'' = ('''', Inr (PDFIndirectRef 123 0)) \<and>
   parseObject decimalFloat 1 ''123 0 R'' = Some ('''', Inr (PDFIndirectRef 123 0))"
proof -
  have a: "Atoi ''123'' = Some 123" and b: "Atoi ''0'' = Some 0"
    by (simp_all add: Atoi_def decimal_def isDigit_def)
  have w: "'' '' \<noteq> []" "\<forall>c \<in> set '' ''. isSpace c"
    by (simp_all add: isSpace_def)
  have r: "''R'' = [] \<or> \<not> isSpace (hd ''R'')"
    by (simp add: isSpace_def)
  from indirect_ref_iff_R [OF a b w w r, of decimalFloat 0] show ?thesis
    by (simp del: parseObject.simps)
qed

theorem third_token_Rfoo_counterexample:
  "parseNumericOrIndRef decimalFloat ''123 0 Rfoo'' = (''foo'', Inr (PDFIndirectRef 123 0))"
  by (simp add: parseNumericOrIndRef_def positionToNextWhitespaceOrChar_def isSpace_def
      Atoi_def decimal_def isDigit_def delimiter_def trimLeftSpace_def forwardParseBuf_def Let_def)

text \<open>
  C2 (the code at the failing input). When only white space follows the second integer,
  the source assigns its local variable (\<^verbatim>\<open>l = l1\<close>) and not \<^verbatim>\<open>*line\<close>: on
  \<^verbatim>\<open>123 0 \<close> with a space at the end, \<open>parseNumericOrIndRef\<close> and \<open>parseObject\<close>
  return the integer 123 and the caller's buffer is still the whole input, not the rest
  behind the first token.
\<close>

theorem trailing_space_buffer_unchanged:
  "parseNumericOrIndRef decimalFloat ''123 0 '' = (''123 0 '', Inr (PDFInteger 123)) \<and>
   parseObject decimalFloat 1 ''123 0 '' = Some (''123 0 '', Inr (PDFInteger 123))"
  by (simp add: parseNumericOrIndRef_def positionToNextWhitespaceOrChar_def isSpace_def
      Atoi_def decimal_def isDigit_def delimiter_def trimLeftSpace_def forwardParseBuf_def
      HasPrefix_def Let_def)

text \<open>
  A consequence in \<open>parseArray\<close>: an element that is parsed without the buffer moving is
  parsed again, so the loop never ends on an array that breaks off behind two integers and
  white space. No fuel is enough.
\<close>

lemma arrayLoop_never_returns: "parseArrayLoop pf n ''1 0 '' arr = None"
proof (induction n arbitrary: arr)
  case 0
  show ?case by simp
next
  case (Suc n)
  have num: "parseNumericOrIndRef pf ''1 0 '' = (''1 0 '', Inr (PDFInteger 1))"
    by (simp add: parseNumericOrIndRef_def positionToNextWhitespaceOrChar_def isSpace_def
        Atoi_def decimal_def isDigit_def delimiter_def trimLeftSpace_def Let_def)
  have obj: "parseObject pf n ''1 0 '' = None \<or>
             parseObject pf n ''1 0 '' = Some (''1 0 '', Inr (PDFInteger 1))"
    using num by (cases n) (simp_all add: trimLeftSpace_def isSpace_def HasPrefix_def Let_def)
  then show ?case
    using Suc.IH by (auto simp: HasPrefix_def trimLeftSpace_def isSpace_def Let_def)
qed

lemma parseArray_never_returns: "parseArray pf n ''[1 0 '' = None"
  using arrayLoop_never_returns [of pf]
  by (cases n) (simp_all add: HasPrefix_def forwardParseBuf_def trimLeftSpace_def isSpace_def Let_def)

section \<open>The array and dictionary parsers\<close>

text \<open>
  C6 (as amended). \<open>parseArray\<close> on an opening bracket followed by nothing or by white
  space only fails with \<open>ErrArrayNotTerminated\<close>; on a buffer that is not empty and does
  not start with the opening bracket it fails with \<open>ErrArrayCorrupt\<close>; on an opening
  bracket, white space only and the closing bracket, as in \<^verbatim>\<open>[ ]\<close>, it succeeds with the
  empty array and the caller's buffer behind the closing bracket.
\<close>

theorem parseArray_brackets:
  assumes "\<forall>c \<in> set ws. isSpace c" and "line \<noteq> []" and "hd line \<noteq> CHR ''[''"
  shows "parseArray pf (Suc n) (''['' @ ws) = Some (''['' @ ws, Inl ErrArrayNotTerminated) \<and>
         parseArray pf (Suc n) line = Some (line, Inl ErrArrayCorrupt) \<and>
         parseArray pf (Suc (Suc n)) (''['' @ ws @ '']'' @ rest) = Some (rest, Inr [])"
proof (intro conjI)
  have f1: "forwardParseBuf (''['' @ ws) (Suc 0) = ws"
    using forward_all [of "''[''" ws] by simp
  have t1: "fst (trimLeftSpace ws) = []"
    using trim_ws [OF assms(1), of "[]"] by simp
  show "parseArray pf (Suc n) (''['' @ ws) = Some (''['' @ ws, Inl ErrArrayNotTerminated)"
    using f1 t1 by (simp add: HasPrefix_def Let_def)
next
  show "parseArray pf (Suc n) line = Some (line, Inl ErrArrayCorrupt)"
    using assms(2,3) by (cases line) (simp_all add: HasPrefix_def)
next
  have f1: "forwardParseBuf (''['' @ ws @ '']'' @ rest) (Suc 0) = ws @ '']'' @ rest"
    using forward_all [of "''[''" "ws @ '']'' @ rest"] by simp
  have t1: "fst (trimLeftSpace (ws @ '']'' @ rest)) = '']'' @ rest"
    using trim_ws [OF assms(1), of "'']'' @ rest"] by simp
  have f2: "forwardParseBuf ('']'' @ rest) (Suc 0) = rest"
    using forward_all [of "'']''" rest] by simp
  show "parseArray pf (Suc (Suc n)) (''['' @ ws @ '']'' @ rest) = Some (rest, Inr [])"
    using f1 t1 f2 by (simp add: HasPrefix_def Let_def)
qed

theorem parseArray_brackets_witness:
  "parseArray decimalFloat 1 ''[ '' = Some (''[ '', Inl ErrArrayNotTerminated) \<and>
   parseArray decimalFloat 1 ''1]'' = Some (''1]'', Inl ErrArrayCorrupt) \<and>
   parseArray decimalFloat 2 ''[ ]x'' = Some (''x'', Inr [])"
proof -
  have w: "\<forall>c \<in> set '' ''. isSpace c" by (simp add: isSpace_def)
  have l: "''1]'' \<noteq> []" "hd ''1]'' \<noteq> CHR ''[''" by simp_all
  from parseArray_brackets [OF w l, of decimalFloat 0 "''x''"] show ?thesis
    by (simp add: numeral_2_eq_2)
qed

theorem whitespace_array_counterexample:
  "parseArray decimalFloat 2 ''[ ]'' = Some ('''', Inr []) \<and>
   parseArray decimalFloat 2 ''[ ]'' \<noteq> Some (''[ ]'', Inl ErrArrayNotTerminated)"
  by (simp add: numeral_2_eq_2 HasPrefix_def forwardParseBuf_def trimLeftSpace_def
      isSpace_def Let_def)

text \<open>
  C7. \<open>parseObject\<close> on \<^verbatim>\<open><<\<close>, white space only and \<^verbatim>\<open>>>\<close> returns the empty
  dictionary and no error, with the caller's buffer behind the closing \<^verbatim>\<open>>>\<close>; three
  units of fuel are enough, and any more give the same.
\<close>

theorem parseObject_empty_dict:
  assumes "\<forall>c \<in> set ws. isSpace c"
  shows "parseObject pf (Suc (Suc (Suc n))) (''<<'' @ ws @ ''>>'' @ rest) =
           Some (rest, Inr (PDFDict []))"
proof -
  have t0: "fst (trimLeftSpace (''<<'' @ ws @ ''>>'' @ rest)) = ''<<'' @ ws @ ''>>'' @ rest"
    by (simp add: trimLeftSpace_def)
  have f2: "forwardParseBuf (''<<'' @ ws @ ''>>'' @ rest) 2 = ws @ ''>>'' @ rest"
    using forward_all [of "''<<''" "ws @ ''>>'' @ rest"] by (simp add: numeral_2_eq_2)
  have t1: "fst (trimLeftSpace (ws @ ''>>'' @ rest)) = ''>>'' @ rest"
    using trim_ws [OF assms, of "''>>'' @ rest"] by simp
  have f3: "forwardParseBuf (''>>'' @ rest) 2 = rest"
    using forward_all [of "''>>''" rest] by (simp add: numeral_2_eq_2)
  have d: "parseDict pf (Suc (Suc n)) (''<<'' @ ws @ ''>>'' @ rest) = Some (rest, Inr [])"
    using f2 t1 f3 by (simp add: HasPrefix_def Let_def)
  show ?thesis
    using t0 d by (simp add: Let_def)
qed

theorem parseObject_empty_dict_witness:
  "parseObject decimalFloat 3 [CHR ''<'', CHR ''<'', CHR 0x0A, CHR ''>'', CHR ''>''] =
     Some ([], Inr (PDFDict []))"
proof -
  have w: "\<forall>c \<in> set [CHR 0x0A]. isSpace c" by (simp add: isSpace_def)
  from parseObject_empty_dict [OF w, of decimalFloat 0 "[]"] show ?thesis
    by (simp add: numeral_3_eq_3)
qed

section \<open>The name parser\<close>

text \<open>
  C8 (the code at the failing input). On \<^verbatim>\<open>/(\<close> the scan returns 0 for the delimiter at
  offset 0, \<^verbatim>\<open>l[0]\<close> is not white space, and \<open>parseName\<close> takes the branch for no
  terminator: the name is \<^verbatim>\<open>(\<close> and the caller's buffer is empty, where the claim has the
  empty name and the delimiter left in the buffer.
\<close>

theorem parseName_slash_paren:
  "parseName ''/('' = ('''', Inr ''('')"
  by (simp add: parseName_def HasPrefix_def forwardParseBuf_def
      positionToNextWhitespaceOrChar_def isSpace_def Let_def)

text \<open>
  On white space at offset 0 the same branch is avoided by the test of \<^verbatim>\<open>l[0]\<close>, and a
  terminator behind a name that is not empty is left in the buffer.
\<close>

lemma parseName_terminators:
  "parseName ''/ x'' = ('' x'', Inr '''')" "parseName ''/ab(c'' = (''(c'', Inr ''ab'')"
  by (simp_all add: parseName_def HasPrefix_def forwardParseBuf_def
      positionToNextWhitespaceOrChar_def isSpace_def Let_def)

lemma parseName_cut:
  assumes "nm \<noteq> []" and "\<forall>c \<in> set nm. \<not> (c \<in> set ''/<>()[]'' \<or> isSpace c)"
    and "c \<in> set ''/<>()[]'' \<or> isSpace c"
  shows "parseName (''/'' @ nm @ c # rest) = (c # rest, Inr nm)"
proof -
  have f: "forwardParseBuf (CHR ''/'' # nm @ c # rest) (Suc 0) = nm @ c # rest"
    using forward_all [of "''/''" "nm @ c # rest"] by simp
  have e: "fst (positionToNextWhitespaceOrChar (nm @ c # rest) ''/<>()[]'') = length nm"
    using scan_token [OF assms(1,2), of "[c]" rest] assms(3) by simp
  show ?thesis
    using assms(1) by (simp add: parseName_def HasPrefix_def Let_def f e)
qed

section \<open>Empty buffers and failed parses\<close>

text \<open>
  C9 (as amended). \<open>parseObject\<close> (also on a buffer of white space only),
  \<open>parseName\<close>, \<open>parseStringLiteral\<close>, \<open>parseHexLiteral\<close> and \<open>parseNumericOrIndRef\<close>
  fail with \<open>ErrBufNotAvailable\<close> on an empty buffer and on a nil pointer; \<open>parseArray\<close>
  fails with \<open>ErrNoArray\<close> and \<open>parseDict\<close> with \<open>ErrNoDictionary\<close> there.
\<close>

theorem empty_buffer_errors:
  assumes "\<forall>c \<in> set ws. isSpace c"
  shows "parseObject pf (Suc n) ws = Some (ws, Inl ErrBufNotAvailable) \<and>
         parseName [] = ([], Inl ErrBufNotAvailable) \<and>
         parseStringLiteral [] = ([], (Inl ErrBufNotAvailable :: error + 'f obj)) \<and>
         parseHexLiteral [] = ([], (Inl ErrBufNotAvailable :: error + 'f obj)) \<and>
         parseNumericOrIndRef pf [] = ([], Inl ErrBufNotAvailable) \<and>
         parseArray pf (Suc n) [] = Some ([], Inl ErrNoArray) \<and>
         parseDict pf (Suc n) [] = Some ([], Inl ErrNoDictionary) \<and>
         parseObjectPtr pf n None = Some (None, Inl ErrBufNotAvailable) \<and>
         parseNamePtr None = (None, Inl ErrBufNotAvailable) \<and>
         parseStringLiteralPtr None = (None, (Inl ErrBufNotAvailable :: error + 'f obj)) \<and>
         parseHexLiteralPtr None = (None, (Inl ErrBufNotAvailable :: error + 'f obj)) \<and>
         parseNumericOrIndRefPtr pf None = (None, Inl ErrBufNotAvailable) \<and>
         parseArrayPtr pf n None = Some (None, Inl ErrNoArray) \<and>
         parseDictPtr pf n None = Some (None, Inl ErrNoDictionary)"
proof -
  have "fst (trimLeftSpace ws) = []"
    using trim_ws [OF assms, of "[]"] by simp
  then have "parseObject pf (Suc n) ws = Some (ws, Inl ErrBufNotAvailable)"
    by (simp add: Let_def)
  then show ?thesis
    by (simp add: parseName_def parseStringLiteral_def parseHexLiteral_def
        parseNumericOrIndRef_def parseObjectPtr_def parseNamePtr_def parseStringLiteralPtr_def
        parseHexLiteralPtr_def parseNumericOrIndRefPtr_def parseArrayPtr_def parseDictPtr_def)
qed

theorem empty_buffer_errors_witness:
  "parseObject decimalFloat 1 ''  '' = Some (''  '', Inl ErrBufNotAvailable) \<and>
   parseArray decimalFloat 1 [] = Some ([], Inl ErrNoArray) \<and>
   parseDict decimalFloat 1 [] = Some ([], Inl ErrNoDictionary)"
proof -
  have w: "\<forall>c \<in> set ''  ''. isSpace c" by (simp add: isSpace_def)
  from empty_buffer_errors [OF w, of decimalFloat 0] show ?thesis
    by (simp add: trimLeftSpace_def isSpace_def Let_def)
qed

theorem empty_array_error_counterexample:
  "parseArray decimalFloat 1 [] = Some ([], Inl ErrNoArray) \<and>
   parseArray decimalFloat 1 [] \<noteq> Some ([], Inl ErrBufNotAvailable) \<and>
   parseDict decimalFloat 1 [] = Some ([], Inl ErrNoDictionary) \<and>
   parseDict decimalFloat 1 [] \<noteq> Some ([], Inl ErrBufNotAvailable)"
  by simp

text \<open>
  C10. Whenever one of the parsers that take the buffer by reference returns an error,
  the caller's buffer is what it was at the call.
\<close>

theorem errors_leave_buffer:
  "(parseObject pf n line = Some (line', Inl e) \<longrightarrow> line' = line) \<and>
   (parseArray pf n line = Some (line', Inl e) \<longrightarrow> line' = line) \<and>
   (parseDict pf n line = Some (line', Inl e) \<longrightarrow> line' = line) \<and>
   (parseName line = (line', Inl e) \<longrightarrow> line' = line) \<and>
   (parseStringLiteral line = (line', (Inl e :: error + 'f obj)) \<longrightarrow> line' = line) \<and>
   (parseHexLiteral line = (line', (Inl e :: error + 'f obj)) \<longrightarrow> line' = line) \<and>
   (parseNumericOrIndRef pf line = (line', Inl e) \<longrightarrow> line' = line) \<and>
   (parseObjectAttributes line = (line', Inl e) \<longrightarrow> line' = line)"
proof (intro conjI impI)
  assume "parseObject pf n line = Some (line', Inl e)"
  then show "line' = line"
    by (cases n) (auto simp: Let_def split: if_splits option.splits sum.splits prod.splits)
next
  assume "parseArray pf n line = Some (line', Inl e)"
  then show "line' = line"
    by (cases n) (auto simp: Let_def split: if_splits option.splits sum.splits prod.splits)
next
  assume "parseDict pf n line = Some (line', Inl e)"
  then show "line' = line"
    by (cases n) (auto simp: Let_def split: if_splits option.splits sum.splits prod.splits)
next
  assume "parseName line = (line', Inl e)"
  then show "line' = line"
    by (auto simp: parseName_def Let_def split: if_splits)
next
  assume "parseStringLiteral line = (line', (Inl e :: error + 'f obj))"
  then show "line' = line"
    by (auto simp: parseStringLiteral_def Let_def split: if_splits)
next
  assume "parseHexLiteral line = (line', (Inl e :: error + 'f obj))"
  then show "line' = line"
    by (auto simp: parseHexLiteral_def Let_def split: if_splits option.splits)
next
  assume "parseNumericOrIndRef pf line = (line', Inl e)"
  then show "line' = line"
    by (auto simp: parseNumericOrIndRef_def Let_def split: if_splits option.splits)
next
  assume "parseObjectAttributes line = (line', Inl e)"
  then show "line' = line"
    by (auto simp: parseObjectAttributes_def Let_def split: if_splits option.splits)
qed

theorem errors_leave_buffer_witness:
  "parseObject decimalFloat 4 ''[1 '' = Some (''[1 '', Inl ErrArrayNotTerminated) \<and>
   parseArray decimalFloat 3 ''[1 '' = Some (''[1 '', Inl ErrArrayNotTerminated) \<and>
   parseDict decimalFloat 3 ''<</A 1 '' = Some (''<</A 1 '', Inl ErrDictionaryNotTerminated) \<and>
   parseName ''x'' = (''x'', Inl ErrNameObjectCorrupt) \<and>
   parseStringLiteral ''(ab'' = (''(ab'', (Inl ErrStringLiteralCorrupt :: error + (int \<times> nat) obj)) \<and>
   parseHexLiteral ''<4x>'' = (''<4x>'', (Inl ErrHexLiteralCorrupt :: error + (int \<times> nat) obj)) \<and>
   parseNumericOrIndRef decimalFloat ''abc'' = (''abc'', Inl (ErrNum ''ParseFloat'' ''abc'')) \<and>
   parseObjectAttributes ''1 x obj'' = (''1 x obj'', Inl (ErrNum ''Atoi'' ''x''))"
proof -
  let ?o = "parseObject decimalFloat 4 ''[1 ''"
  let ?a = "parseArray decimalFloat 3 ''[1 ''"
  let ?d = "parseDict decimalFloat 3 ''<</A 1 ''"
  let ?s = "parseStringLiteral ''(ab'' :: string \<times> (error + (int \<times> nat) obj)"
  let ?h = "parseHexLiteral ''<4x>'' :: string \<times> (error + (int \<times> nat) obj)"
  have o: "?o = Some (fst (the ?o), Inl ErrArrayNotTerminated)"
    by code_simp
  have a: "?a = Some (fst (the ?a), Inl ErrArrayNotTerminated)"
    by code_simp
  have d: "?d = Some (fst (the ?d), Inl ErrDictionaryNotTerminated)"
    by code_simp
  have n: "parseName ''x'' = (fst (parseName ''x''), Inl ErrNameObjectCorrupt)"
    by code_simp
  have s: "?s = (fst ?s, Inl ErrStringLiteralCorrupt)"
    by code_simp
  have h: "?h = (fst ?h, Inl ErrHexLiteralCorrupt)"
    by code_simp
  have f: "parseNumericOrIndRef decimalFloat ''abc'' =
      (fst (parseNumericOrIndRef decimalFloat ''abc''), Inl (ErrNum ''ParseFloat'' ''abc''))"
    by code_simp
  have t: "parseObjectAttributes ''1 x obj'' =
      (fst (parseObjectAttributes ''1 x obj''), Inl (ErrNum ''Atoi'' ''x''))"
    by code_simp
  note c1 = errors_leave_buffer [THEN conjunct1, rule_format]
  note c2 = errors_leave_buffer [THEN conjunct2, THEN conjunct1, rule_format]
  note c3 = errors_leave_buffer [THEN conjunct2, THEN conjunct2, THEN conjunct1, rule_format]
  note c4 = errors_leave_buffer [THEN conjunct2, THEN conjunct2, THEN conjunct2,
      THEN conjunct1, rule_format]
  note c5 = errors_leave_buffer [THEN conjunct2, THEN conjunct2, THEN conjunct2,
      THEN conjunct2, THEN conjunct1, rule_format]
  note c6 = errors_leave_buffer [THEN conjunct2, THEN conjunct2, THEN conjunct2,
      THEN conjunct2, THEN conjunct2, THEN conjunct1, rule_format]
  note c7 = errors_leave_buffer [THEN conjunct2, THEN conjunct2, THEN conjunct2,
      THEN conjunct2, THEN conjunct2, THEN conjunct2, THEN conjunct1, rule_format]
  note c8 = errors_leave_buffer [THEN conjunct2, THEN conjunct2, THEN conjunct2,
      THEN conjunct2, THEN conjunct2, THEN conjunct2, THEN conjunct2, rule_format]
  show ?thesis
    using o a d n s h f t c1 [OF o] c2 [OF a] c3 [OF d] c4 [OF n] c5 [OF s] c6 [OF h]
      c7 [OF f] c8 [OF t]
    by simp
qed

section \<open>The cross-reference stream descriptor\<close>

lemma length_indexPairs: "length (indexPairs ps :: 'f obj list) = 2 * length ps"
  by (induction ps) (auto simp: indexPairs_def)

lemma nth_indexPairs:
  "i < length ps \<Longrightarrow>
     (indexPairs ps :: 'f obj list) ! (i * 2) = PDFInteger (fst (ps ! i)) \<and>
     (indexPairs ps :: 'f obj list) ! (i * 2 + 1) = PDFInteger (snd (ps ! i))"
proof (induction ps arbitrary: i)
  case Nil
  then show ?case by simp
next
  case (Cons p ps)
  show ?case
  proof (cases i)
    case 0
    then show ?thesis by (cases p) (simp add: indexPairs_def)
  next
    case (Suc k)
    with Cons.prems have "k < length ps" by simp
    from Cons.IH [OF this] Suc show ?thesis
      by (cases p) (simp add: indexPairs_def)
  qed
qed

text \<open>The loop over an array of integer pairs, from pair \<open>i\<close> on.\<close>

lemma indexLoop_pairs:
  "i \<le> length ps \<Longrightarrow>
     indexLoop (indexPairs ps :: 'f obj list) i objs =
       Inr (objs @
         concat (map (\<lambda>(s, c). map (\<lambda>j. s + of_nat j) [0..<nat (sint c)]) (drop i ps)))"
proof (induction "length ps - i" arbitrary: i objs)
  case 0
  then show ?case
    by (subst indexLoop.simps) (simp add: length_indexPairs)
next
  case (Suc k)
  then have lt: "i < length ps" and k: "k = length ps - Suc i" and le: "Suc i \<le> length ps"
    by simp_all
  obtain s c where p: "ps ! i = (s, c)" by (cases "ps ! i")
  have d: "drop i ps = (s, c) # drop (Suc i) ps"
    using lt p by (simp add: Cons_nth_drop_Suc [symmetric])
  show ?case
    using nth_indexPairs [OF lt, where 'f = 'f] Suc.hyps(1) [OF k le] p
    by (subst indexLoop.simps) (simp add: length_indexPairs lt d)
qed

lemma parseXRef_Inr:
  "parseXRefStreamDict d = Inr x \<Longrightarrow>
     \<exists>sz. Size d = Some sz \<and> xrefObjects d sz = Inr (Objects x)"
  by (auto simp: parseXRefStreamDict_def split: option.splits sum.splits if_splits obj.splits)


text \<open>
  C3 (as amended). In the descriptor that \<open>parseXRefStreamDict\<close> builds, when
  \<^verbatim>\<open>Index\<close> is an array of integer pairs, each pair \<open>(start, count)\<close> contributes
  \<open>start\<close>, \<open>start + 1\<close>, ... up to \<open>start + count - 1\<close> in order, computed in 64-bit
  integers, and nothing when \<open>count\<close> is zero or negative; the length of the list is
  the sum of the counts that are positive. With no \<^verbatim>\<open>Index\<close> the list is 0 up to
  \<open>Size - 1\<close>, of length \<open>Size\<close> when that is not negative and empty otherwise.
\<close>

theorem xref_objects:
  assumes "parseXRefStreamDict d = Inr x"
  shows "(\<forall>ps. Index d = Some (indexPairs ps) \<longrightarrow>
            Objects x =
              concat (map (\<lambda>(s, c). map (\<lambda>j. s + of_nat j) [0..<nat (sint c)]) ps) \<and>
            length (Objects x) = sum_list (map (\<lambda>(s, c). nat (sint c)) ps)) \<and>
         (Index d = None \<longrightarrow>
            (\<exists>sz. Size d = Some sz \<and> Objects x = map of_nat [0..<nat (sint sz)] \<and>
                  length (Objects x) = nat (sint sz)))"
proof -
  from parseXRef_Inr [OF assms] obtain sz
    where sz: "Size d = Some sz" and objs: "xrefObjects d sz = Inr (Objects x)" by blast
  have len: "length (concat (map (\<lambda>(s, c). map (\<lambda>j. s + of_nat j) [0..<nat (sint c)]) ps)) =
      sum_list (map (\<lambda>(s, c). nat (sint c)) ps)" for ps :: "(goint \<times> goint) list"
    by (induction ps) auto
  have "Objects x = concat (map (\<lambda>(s, c). map (\<lambda>j. s + of_nat j) [0..<nat (sint c)]) ps)"
    if "Index d = Some (indexPairs ps)" for ps
    using objs that indexLoop_pairs [of 0 ps "[]", where 'f = 'a]
    by (simp add: xrefObjects_def length_indexPairs)
  moreover have "Objects x = map of_nat [0..<nat (sint sz)]" if "Index d = None"
    using objs that by (simp add: xrefObjects_def)
  ultimately show ?thesis using sz len by auto
qed

theorem xref_objects_witness:
  "Objects (projr (parseXRefStreamDict
      (streamDict (Some 10) (Some (indexPairs [(2, 3), (10, 1)]))
         (Some [PDFInteger 1, PDFInteger 2, PDFInteger 1]) :: (int \<times> nat) PDFStreamDict)))
     = [2, 3, 4, 10] \<and>
   Objects (projr (parseXRefStreamDict
      (streamDict (Some 10) None
         (Some [PDFInteger 1, PDFInteger 2, PDFInteger 1]) :: (int \<times> nat) PDFStreamDict)))
     = [0, 1, 2, 3, 4, 5, 6, 7, 8, 9]"
proof -
  let ?w = "Some [PDFInteger 1, PDFInteger 2, PDFInteger 1 :: (int \<times> nat) obj]"
  let ?d = "streamDict (Some 10) (Some (indexPairs [(2, 3), (10, 1)])) ?w"
  let ?e = "streamDict (Some 10) None ?w"
  have d: "parseXRefStreamDict ?d = Inr (projr (parseXRefStreamDict ?d))"
    by (simp add: parseXRefStreamDict_def xrefObjects_def streamDict_def indexPairs_def
        indexLoop.simps)
  have e: "parseXRefStreamDict ?e = Inr (projr (parseXRefStreamDict ?e))"
    by (simp add: parseXRefStreamDict_def xrefObjects_def streamDict_def)
  have i: "Index ?d = Some (indexPairs [(2, 3), (10, 1)])" "Index ?e = None"
    by (simp_all add: streamDict_def)
  have A: "Objects (projr (parseXRefStreamDict ?d)) =
      concat (map (\<lambda>(s, c). map (\<lambda>j. s + of_nat j) [0..<nat (sint c)])
        [(2, 3), (10, 1) :: goint \<times> goint])"
    using xref_objects [OF d, THEN conjunct1, rule_format, OF i(1)] by (rule conjunct1)
  have "Size ?e = Some 10" by (simp add: streamDict_def)
  with xref_objects [OF e, THEN conjunct2, rule_format, OF i(2)]
  have B: "Objects (projr (parseXRefStreamDict ?e)) = map of_nat [0..<nat (sint (10 :: goint))]"
    by auto
  show ?thesis
    unfolding A B by (simp add: upt_rec)
qed

theorem negative_count_counterexample:
  "Objects (projr (parseXRefStreamDict
      (streamDict (Some 11) (Some [PDFInteger 2, PDFInteger 3, PDFInteger 10, PDFInteger (- 1)])
         (Some [PDFInteger 1, PDFInteger 2, PDFInteger 1]) :: (int \<times> nat) PDFStreamDict)))
     = [2, 3, 4] \<and>
   int (length (Objects (projr (parseXRefStreamDict
      (streamDict (Some 11) (Some [PDFInteger 2, PDFInteger 3, PDFInteger 10, PDFInteger (- 1)])
         (Some [PDFInteger 1, PDFInteger 2, PDFInteger 1]) :: (int \<times> nat) PDFStreamDict)))))
     \<noteq> sint (3 :: goint) + sint (- 1 :: goint)"
  by (simp add: parseXRefStreamDict_def xrefObjects_def streamDict_def indexLoop.simps upt_rec)

text \<open>
  C4 (the code at the failing input). The test before the loop is
  \<^verbatim>\<open>len(indArr)%2 > 1\<close>, which no length satisfies: an \<^verbatim>\<open>Index\<close> array of odd length is
  accepted, its last element is never read, and on \<^verbatim>\<open>Index = [2]\<close> the descriptor is
  built with no object number at all instead of the error \<open>ErrXrefStreamCorruptIndex\<close>.
\<close>

theorem odd_index_accepted:
  "parseXRefStreamDict
      (streamDict (Some 1) (Some [PDFInteger 2])
         (Some [PDFInteger 1, PDFInteger 1, PDFInteger 1]) :: (int \<times> nat) PDFStreamDict)
     = Inr \<lparr>XRefStreamDict = streamDict (Some 1) (Some [PDFInteger 2])
                (Some [PDFInteger 1, PDFInteger 1, PDFInteger 1]),
            XRefSize = 1, Objects = [], XRefW = (1, 1, 1), PreviousOffset = None\<rparr>"
  by (simp add: parseXRefStreamDict_def xrefObjects_def streamDict_def indexLoop.simps)

text \<open>An element of a pair that is not an integer is refused, as the claim has it.\<close>

lemma non_integer_pair_refused:
  "parseXRefStreamDict
      (streamDict (Some 5) (Some [PDFInteger 2, PDFName ''x''])
         (Some [PDFInteger 1, PDFInteger 1, PDFInteger 1]) :: (int \<times> nat) PDFStreamDict)
     = Inl ErrXrefStreamCorruptIndex"
  by (simp add: parseXRefStreamDict_def xrefObjects_def streamDict_def indexLoop.simps)




end
